theory Spec2Isabelle
  imports Main
begin

section \<open>Data model\<close>

text \<open>
  The two programs (\<^verbatim>\<open>createStream/main.go\<close> and \<^verbatim>\<open>deleteAll/main.go\<close>) are sequential
  wrappers around a remote livestream service. Of the remote resources only the fields
  the programs read are kept: the name and the ingest URI of an input, the name, the
  output URI and the streaming state of a channel, the name of an event.
\<close>

text \<open>
  Errors. The remote service, the file system and the JSON libraries fail with some
  base error; the programs wrap it with a static label, either with \<^verbatim>\<open>%w\<close>
  (\<open>Wrap\<close>) or with \<^verbatim>\<open>%v\<close> (\<open>Msg\<close>).
\<close>

datatype error =
    NotFound
  | PermissionDenied
  | Unavailable
  | AlreadyExists
  | Other string
  | Wrap string error
  | Msg string error

datatype input_type = TYPE_UNSPECIFIED | RTMP_PUSH | SRT_PUSH

text \<open>
  Modelled from the spec: the enumeration \<^verbatim>\<open>livestreampb.Channel_StreamingState\<close> is declared
  outside the repository; its values are the ones the specification lists for the
  streaming state of a channel.
\<close>

datatype streaming_state =
    STREAMING_STATE_UNSPECIFIED
  | STOPPED
  | STARTING
  | STREAMING
  | STOPPING
  | AWAITING_INPUT
  | UPDATING
  | DELETING
  | STREAMING_ERROR
  | STREAMING_NO_INPUT

record input =
  input_Name :: string
  input_Type :: input_type
  input_Uri :: string

record channel =
  channel_Name :: string
  channel_Output_Uri :: string
  channel_StreamingState :: streaming_state

record event =
  event_Name :: string

text \<open>
  A paginated listing is consumed through \<^verbatim>\<open>Next()\<close>. An iterator is the finite script of
  the outcomes of its successive \<^verbatim>\<open>Next()\<close> calls: it yields items until it either reports
  \<^verbatim>\<open>iterator.Done\<close> or fails with an error. (The callers stop at the first of the two, so
  nothing after it is observable.)
\<close>

datatype 'a iterator =
    Done
  | Fail error
  | Yield 'a "'a iterator"

section \<open>Effects and the environment\<close>

text \<open>
  Everything a program does to the outside world is recorded as an effect, in the order
  in which the code performs it: remote calls, waits on long-running operations, file
  operations, writes to the writer \<^verbatim>\<open>w\<close>, log lines and sleeps.
\<close>

datatype effect =
    EvNewClient
  | EvClientClose
  | EvGetInput string
  | EvCreateInput string string input
  | EvWaitCreateInput string
  | EvGetChannel string
  | EvCreateChannel string string channel
  | EvWaitCreateChannel string
  | EvStartChannel string
  | EvWaitStartChannel string
  | EvStopChannel string
  | EvWaitStopChannel string
  | EvDeleteInput string
  | EvDeleteChannel string
  | EvListInputs string
  | EvListChannels string
  | EvListEvents string
  | EvOsCreate string
  | EvFileWrite string string
  | EvFileClose string
  | EvReadFile string
  | EvWrite string
  | EvLog string
  | EvLogErr string error
  | EvSleep nat

text \<open>
  The environment answers every call. Each answer may depend on the history, the list of
  all effects performed so far, so that the same call can be answered differently at
  different times (a channel that exists only after it was created, a transient
  failure). A mutating call that returns a long-running operation answers \<open>None\<close> when
  the operation handle is returned and \<open>Some e\<close> when the call fails; the wait on the
  handle is a separate call. \<open>MarshalIndent\<close> and \<open>Unmarshal\<close> are the two library
  functions \<^verbatim>\<open>json.MarshalIndent\<close> and \<^verbatim>\<open>protojson.Unmarshal\<close>: pure functions of their
  argument, taken as parameters.
\<close>

record env =
  NewClient :: "effect list \<Rightarrow> error option"
  GetInput :: "effect list \<Rightarrow> string \<Rightarrow> error + input"
  CreateInput :: "effect list \<Rightarrow> string \<Rightarrow> string \<Rightarrow> input \<Rightarrow> error option"
  WaitCreateInput :: "effect list \<Rightarrow> error + input"
  GetChannel :: "effect list \<Rightarrow> string \<Rightarrow> error + channel"
  CreateChannel :: "effect list \<Rightarrow> string \<Rightarrow> string \<Rightarrow> channel \<Rightarrow> error option"
  WaitCreateChannel :: "effect list \<Rightarrow> error + channel"
  StartChannel :: "effect list \<Rightarrow> string \<Rightarrow> error option"
  WaitStartChannel :: "effect list \<Rightarrow> error option"
  StopChannel :: "effect list \<Rightarrow> string \<Rightarrow> error option"
  WaitStopChannel :: "effect list \<Rightarrow> error option"
  DeleteInput :: "effect list \<Rightarrow> string \<Rightarrow> error option"
  DeleteChannel :: "effect list \<Rightarrow> string \<Rightarrow> error option"
  ListInputs :: "effect list \<Rightarrow> string \<Rightarrow> input iterator"
  ListChannels :: "effect list \<Rightarrow> string \<Rightarrow> channel iterator"
  ListEvents :: "effect list \<Rightarrow> string \<Rightarrow> event iterator"
  os_Create :: "effect list \<Rightarrow> string \<Rightarrow> error option"
  file_Write :: "effect list \<Rightarrow> string \<Rightarrow> string \<Rightarrow> error option"
  os_ReadFile :: "effect list \<Rightarrow> string \<Rightarrow> error + string"
  MarshalIndent :: "(string \<times> string) list \<Rightarrow> error + string"
  Unmarshal :: "string \<Rightarrow> error + channel"

text \<open>
  Every function of the programs is modelled as a function of the environment, its
  arguments and the history \<open>h\<close>; it returns its result together with the effects it
  performed itself, in order. A call is answered on the history up to it.
\<close>

section \<open>Resource names\<close>

definition parentPath :: "string \<Rightarrow> string \<Rightarrow> string" where
  "parentPath project loc = ''projects/'' @ project @ ''/locations/'' @ loc"

definition inputPath :: "string \<Rightarrow> string \<Rightarrow> string \<Rightarrow> string" where
  "inputPath project loc inputId =
     ''projects/'' @ project @ ''/locations/'' @ loc @ ''/inputs/'' @ inputId"

definition channelPath :: "string \<Rightarrow> string \<Rightarrow> string \<Rightarrow> string" where
  "channelPath project loc channelId =
     ''projects/'' @ project @ ''/locations/'' @ loc @ ''/channels/'' @ channelId"

section \<open>The teardown program: listing\<close>

text \<open>The loops of \<^verbatim>\<open>listInputs\<close>, \<^verbatim>\<open>listChannels\<close> and \<^verbatim>\<open>listEvents\<close>, with the slice they append to.\<close>

fun listInputs_loop :: "input iterator \<Rightarrow> input list \<Rightarrow> error + input list" where
  "listInputs_loop Done inputs = Inr inputs"
| "listInputs_loop (Fail e) inputs = Inl (Wrap ''ListInputsIterator'' e)"
| "listInputs_loop (Yield x it) inputs = listInputs_loop it (inputs @ [x])"

fun listChannels_loop :: "channel iterator \<Rightarrow> channel list \<Rightarrow> error + channel list" where
  "listChannels_loop Done channels = Inr channels"
| "listChannels_loop (Fail e) channels = Inl (Wrap ''ListChannelsIterator'' e)"
| "listChannels_loop (Yield x it) channels = listChannels_loop it (channels @ [x])"

fun listEvents_loop :: "event iterator \<Rightarrow> event list \<Rightarrow> error + event list" where
  "listEvents_loop Done events = Inr events"
| "listEvents_loop (Fail e) events = Inl (Wrap ''ListEventsIterator'' e)"
| "listEvents_loop (Yield x it) events = listEvents_loop it (events @ [x])"

definition listInputs ::
  "env \<Rightarrow> string \<Rightarrow> string \<Rightarrow> effect list \<Rightarrow> (error + input list) \<times> effect list" where
  "listInputs env project loc h =
     (let parent = parentPath project loc;
          inputIterator = ListInputs env h parent
      in (listInputs_loop inputIterator [], [EvListInputs parent]))"

definition listChannels ::
  "env \<Rightarrow> string \<Rightarrow> string \<Rightarrow> effect list \<Rightarrow> (error + channel list) \<times> effect list" where
  "listChannels env project loc h =
     (let parent = parentPath project loc;
          channelIterator = ListChannels env h parent
      in (listChannels_loop channelIterator [], [EvListChannels parent]))"

definition listEvents ::
  "env \<Rightarrow> string \<Rightarrow> string \<Rightarrow> string \<Rightarrow> effect list \<Rightarrow> (error + event list) \<times> effect list" where
  "listEvents env project loc channelName h =
     (let parent = channelName;
          eventIterator = ListEvents env h parent
      in (listEvents_loop eventIterator [], [EvListEvents parent]))"

section \<open>The teardown program: stopping and deleting\<close>

text \<open>The package-level variables of \<^verbatim>\<open>deleteAll/main.go\<close> (the provisioning program declares the same two).\<close>

definition projectID :: string where
  "projectID = ''<PROJECT_NUMBER>''"

definition location :: string where
  "location = ''<REGION>''"

text \<open>\<^verbatim>\<open>stopChannel\<close>: the stop request, then the wait on its operation.\<close>

definition stopChannel :: "env \<Rightarrow> string \<Rightarrow> effect list \<Rightarrow> error option \<times> effect list" where
  "stopChannel env channelName h =
     (case StopChannel env h channelName of
        Some e \<Rightarrow> (Some (Wrap ''StopChannel'' e), [EvStopChannel channelName])
      | None \<Rightarrow>
          (case WaitStopChannel env (h @ [EvStopChannel channelName]) of
             Some e \<Rightarrow>
               (Some (Wrap ''StopChannel Wait'' e),
                [EvStopChannel channelName, EvWaitStopChannel channelName])
           | None \<Rightarrow>
               (None,
                [EvStopChannel channelName, EvWaitStopChannel channelName,
                 EvLog (''Stopped channel: '' @ channelName)])))"

text \<open>The loop of \<^verbatim>\<open>deleteAllInputs\<close> over its own listing.\<close>

fun deleteAllInputs_loop ::
  "env \<Rightarrow> input iterator \<Rightarrow> effect list \<Rightarrow> error option \<times> effect list" where
  "deleteAllInputs_loop env Done h = (None, [])"
| "deleteAllInputs_loop env (Fail e) h = (Some (Wrap ''ListInputsIterator'' e), [])"
| "deleteAllInputs_loop env (Yield inp it) h =
     (let inputName = input_Name inp;
          evs1 = [EvLog (''Deleting input: '' @ inputName), EvDeleteInput inputName];
          evs2 = (case DeleteInput env (h @ [EvLog (''Deleting input: '' @ inputName)]) inputName of
                    Some e \<Rightarrow> evs1 @ [EvLogErr (''Error deleting input '' @ inputName) e]
                  | None \<Rightarrow> evs1);
          (r, rest) = deleteAllInputs_loop env it (h @ evs2)
      in (r, evs2 @ rest))"

definition deleteAllInputs ::
  "env \<Rightarrow> string \<Rightarrow> string \<Rightarrow> effect list \<Rightarrow> error option \<times> effect list" where
  "deleteAllInputs env project loc h =
     (case NewClient env h of
        Some e \<Rightarrow> (Some (Wrap ''NewClient'' e), [EvNewClient])
      | None \<Rightarrow>
          (let parent = parentPath project loc;
               inputIterator = ListInputs env (h @ [EvNewClient]) parent;
               evs1 = [EvNewClient, EvListInputs parent];
               (r, evs2) = deleteAllInputs_loop env inputIterator (h @ evs1)
           in (r, evs1 @ evs2 @ [EvClientClose])))"

text \<open>The loop of \<^verbatim>\<open>deleteAllChannels\<close>: stop, then delete, each channel of its own listing.\<close>

fun deleteAllChannels_loop ::
  "env \<Rightarrow> channel iterator \<Rightarrow> effect list \<Rightarrow> error option \<times> effect list" where
  "deleteAllChannels_loop env Done h = (None, [])"
| "deleteAllChannels_loop env (Fail e) h = (Some (Wrap ''ListChannelsIterator'' e), [])"
| "deleteAllChannels_loop env (Yield chan it) h =
     (let channelName = channel_Name chan;
          (err, evs1) = stopChannel env channelName h;
          evs2 = (case err of
                    Some e \<Rightarrow> evs1 @ [EvLogErr (''Error stopping channel '' @ channelName) e]
                  | None \<Rightarrow> evs1);
          evs3 = evs2 @ [EvLog (''Deleting channel: '' @ channelName), EvDeleteChannel channelName];
          evs4 = (case DeleteChannel env (h @ evs2 @ [EvLog (''Deleting channel: '' @ channelName)])
                         channelName of
                    Some e \<Rightarrow> evs3 @ [EvLogErr (''Error deleting channel '' @ channelName) e]
                  | None \<Rightarrow> evs3);
          (r, rest) = deleteAllChannels_loop env it (h @ evs4)
      in (r, evs4 @ rest))"

definition deleteAllChannels ::
  "env \<Rightarrow> string \<Rightarrow> string \<Rightarrow> effect list \<Rightarrow> error option \<times> effect list" where
  "deleteAllChannels env project loc h =
     (case NewClient env h of
        Some e \<Rightarrow> (Some (Wrap ''NewClient'' e), [EvNewClient])
      | None \<Rightarrow>
          (let parent = parentPath project loc;
               channelIterator = ListChannels env (h @ [EvNewClient]) parent;
               evs1 = [EvNewClient, EvListChannels parent];
               (r, evs2) = deleteAllChannels_loop env channelIterator (h @ evs1)
           in (r, evs1 @ evs2 @ [EvClientClose])))"

section \<open>The teardown program: main\<close>

text \<open>
  The report loop of \<^verbatim>\<open>main\<close> over the listed channels (lines 205 to 220). Its first
  component is \<open>False\<close> when listing the events of a channel failed and \<^verbatim>\<open>main\<close> returns.
\<close>

fun deleteAll_report :: "env \<Rightarrow> channel list \<Rightarrow> effect list \<Rightarrow> bool \<times> effect list" where
  "deleteAll_report env [] h = (True, [])"
| "deleteAll_report env (chan # channels) h =
     (let evs1 = [EvLog (''- '' @ channel_Name chan)];
          (r, evs2) = listEvents env projectID location (channel_Name chan) (h @ evs1)
      in case r of
           Inl e \<Rightarrow>
             (False,
              evs1 @ evs2 @ [EvLogErr (''Error listing events for channel '' @ channel_Name chan) e])
         | Inr events \<Rightarrow>
             (let evs3 = evs1 @ evs2 @
                    (if length events > 0
                     then EvLog (''  Events for channel '' @ channel_Name chan @ '':'')
                          # map (\<lambda>ev. EvLog (''    - '' @ event_Name ev)) events
                     else []);
                  (ok, rest) = deleteAll_report env channels (h @ evs3)
              in (ok, evs3 @ rest)))"

text \<open>
  The two delete phases at the end of \<^verbatim>\<open>main\<close> (lines 222 to 233): all channels, then all
  inputs; an error of either is logged and nothing else.
\<close>

definition deleteAll_teardown :: "env \<Rightarrow> effect list \<Rightarrow> effect list" where
  "deleteAll_teardown env h =
     (let (err, evs1) = deleteAllChannels env projectID location h;
          evs2 = (case err of
                    Some e \<Rightarrow> evs1 @ [EvLogErr ''Error deleting channels'' e]
                  | None \<Rightarrow> evs1);
          (err, evs3) = deleteAllInputs env projectID location (h @ evs2);
          evs4 = (case err of
                    Some e \<Rightarrow> evs2 @ evs3 @ [EvLogErr ''Error deleting inputs'' e]
                  | None \<Rightarrow> evs2 @ evs3)
      in evs4 @ [EvLog ''Finished deleting all channels and inputs.''])"

text \<open>\<^verbatim>\<open>main\<close> of the teardown program, from an empty history. It returns all its effects.\<close>

definition deleteAll_main :: "env \<Rightarrow> effect list" where
  "deleteAll_main env =
     (case NewClient env [] of
        Some e \<Rightarrow> [EvNewClient, EvLogErr ''Error creating client'' e]
      | None \<Rightarrow>
          (let (r, evs) = listInputs env projectID location [EvNewClient];
               h1 = [EvNewClient] @ evs
           in case r of
                Inl e \<Rightarrow> h1 @ [EvLogErr ''Error listing inputs'' e, EvClientClose]
              | Inr inputs \<Rightarrow>
                  (let h2 = h1 @ [EvLog ''Inputs:'']
                          @ map (\<lambda>inp. EvLog (''- '' @ input_Name inp)) inputs;
                       (r, evs) = listChannels env projectID location h2;
                       h3 = h2 @ evs
                   in case r of
                        Inl e \<Rightarrow> h3 @ [EvLogErr ''Error listing channels'' e, EvClientClose]
                      | Inr channels \<Rightarrow>
                          (let h4 = h3 @ [EvLog ''Channels:''];
                               (ok, evs) = deleteAll_report env channels h4;
                               h5 = h4 @ evs
                           in if \<not> ok then h5 @ [EvClientClose]
                              else h5 @ deleteAll_teardown env h5 @ [EvClientClose]))))"

section \<open>The provisioning program: package-level variables\<close>

definition runningNumber :: string where
  "runningNumber = ''01''"

definition channelID :: string where
  "channelID = ''livestream-channel-'' @ runningNumber"

definition inputID :: string where
  "inputID = ''livestream-input-'' @ runningNumber"

definition gcsoutput :: string where
  "gcsoutput = ''gs://<GCP_STORAGE_BUCKET>/'' @ inputID"

section \<open>The provisioning program: snapshot files\<close>

text \<open>
  The block "write json to file" occurs four times, twice in each ensure function. In
  the branch of an existing resource (lines 55 to 64 and 143 to 153) a failure of
  \<^verbatim>\<open>os.Create\<close> is returned as an error.
\<close>

definition writeFile_existing ::
  "env \<Rightarrow> string \<Rightarrow> string \<Rightarrow> string \<Rightarrow> string \<Rightarrow> effect list \<Rightarrow> error option \<times> effect list" where
  "writeFile_existing env fileName prettyJSON createLabel writeLabel h =
     (case os_Create env h fileName of
        Some e \<Rightarrow> (Some (Msg createLabel e), [EvOsCreate fileName])
      | None \<Rightarrow>
          (case file_Write env (h @ [EvOsCreate fileName]) fileName prettyJSON of
             Some e \<Rightarrow>
               (Some (Msg writeLabel e),
                [EvOsCreate fileName, EvFileWrite fileName prettyJSON, EvFileClose fileName])
           | None \<Rightarrow>
               (None,
                [EvOsCreate fileName, EvFileWrite fileName prettyJSON, EvFileClose fileName])))"

text \<open>
  In the branch of a resource just created (lines 98 to 108 and 204 to 214) a failure
  of \<^verbatim>\<open>os.Create\<close> is logged and the function returns \<^verbatim>\<open>nil\<close>.
\<close>

definition writeFile_created ::
  "env \<Rightarrow> string \<Rightarrow> string \<Rightarrow> string \<Rightarrow> string \<Rightarrow> effect list \<Rightarrow> error option \<times> effect list" where
  "writeFile_created env fileName prettyJSON createLabel writeLabel h =
     (case os_Create env h fileName of
        Some e \<Rightarrow> (None, [EvOsCreate fileName, EvLogErr createLabel e])
      | None \<Rightarrow>
          (case file_Write env (h @ [EvOsCreate fileName]) fileName prettyJSON of
             Some e \<Rightarrow>
               (Some (Msg writeLabel e),
                [EvOsCreate fileName, EvFileWrite fileName prettyJSON, EvFileClose fileName])
           | None \<Rightarrow>
               (None,
                [EvOsCreate fileName, EvFileWrite fileName prettyJSON, EvFileClose fileName])))"

section \<open>The provisioning program: createInputIfNotExists\<close>

text \<open>Lines 41 to 64: the lookup succeeded.\<close>

definition createInput_existing ::
  "env \<Rightarrow> string \<Rightarrow> string \<Rightarrow> input \<Rightarrow> effect list \<Rightarrow> error option \<times> effect list" where
  "createInput_existing env inputId inputName existingInput h =
     (let evs1 = [EvLog (''Input '' @ inputName @ '' already exists.'')];
          inputInfo = [(''inputID'', inputName), (''uri'', input_Uri existingInput)]
      in case MarshalIndent env inputInfo of
           Inl e \<Rightarrow> (Some (Wrap ''JSON marshal error'' e), evs1)
         | Inr prettyJSON \<Rightarrow>
             (let evs2 = evs1 @ [EvWrite prettyJSON, EvWrite ''\<newline>''];
                  (r, evs3) = writeFile_existing env (inputId @ ''.json'') prettyJSON
                                ''Error creating input file'' ''Error writing to input file''
                                (h @ evs2)
              in (r, evs2 @ evs3)))"

text \<open>Lines 67 to 108: the lookup returned an error, whatever it is.\<close>

definition createInput_create ::
  "env \<Rightarrow> string \<Rightarrow> string \<Rightarrow> string \<Rightarrow> effect list \<Rightarrow> error option \<times> effect list" where
  "createInput_create env project loc inputId h =
     (let parent = parentPath project loc;
          newInput = \<lparr>input_Name = [], input_Type = RTMP_PUSH, input_Uri = []\<rparr>;
          evs1 = [EvCreateInput parent inputId newInput]
      in case CreateInput env h parent inputId newInput of
           Some e \<Rightarrow> (Some (Wrap ''CreateInput'' e), evs1)
         | None \<Rightarrow>
             (case WaitCreateInput env (h @ evs1) of
                Inl e \<Rightarrow> (Some (Wrap ''Wait'' e), evs1 @ [EvWaitCreateInput inputId])
              | Inr response \<Rightarrow>
                  (let evs2 = evs1 @ [EvWaitCreateInput inputId,
                                      EvLog (''Input created: '' @ input_Name response)];
                       inputInfo = [(''inputID'', input_Name response),
                                    (''uri'', input_Uri response)]
                   in case MarshalIndent env inputInfo of
                        Inl e \<Rightarrow> (Some (Wrap ''JSON marshal error'' e), evs2)
                      | Inr prettyJSON \<Rightarrow>
                          (let evs3 = evs2 @ [EvWrite prettyJSON, EvWrite ''\<newline>''];
                               (r, evs4) = writeFile_created env (inputId @ ''.json'') prettyJSON
                                             ''Error creating input file''
                                             ''Error writing to input file'' (h @ evs3)
                           in (r, evs3 @ evs4)))))"

definition createInputIfNotExists ::
  "env \<Rightarrow> string \<Rightarrow> string \<Rightarrow> string \<Rightarrow> effect list \<Rightarrow> error option \<times> effect list" where
  "createInputIfNotExists env project loc inputId h =
     (case NewClient env h of
        Some e \<Rightarrow> (Some (Wrap ''NewClient'' e), [EvNewClient])
      | None \<Rightarrow>
          (let inputName = inputPath project loc inputId;
               evs1 = [EvNewClient, EvGetInput inputName];
               (r, evs2) =
                 (case GetInput env (h @ [EvNewClient]) inputName of
                    Inr existingInput \<Rightarrow>
                      createInput_existing env inputId inputName existingInput (h @ evs1)
                  | Inl err \<Rightarrow> createInput_create env project loc inputId (h @ evs1))
           in (r, evs1 @ evs2 @ [EvClientClose])))"

section \<open>The provisioning program: createChannelIfNotExists\<close>

text \<open>
  \<^verbatim>\<open>strings.ReplaceAll\<close>: the non-overlapping occurrences of \<open>old\<close> are replaced from left
  to right. The program calls it with the two non-empty markers only; for an empty
  \<open>old\<close>, where Go inserts \<open>new\<close> around every rune, this function is not that of Go.
\<close>

fun ReplaceAll :: "string \<Rightarrow> string \<Rightarrow> string \<Rightarrow> string" where
  "ReplaceAll [] old new = []"
| "ReplaceAll (c # s) old new =
     (if old \<noteq> [] \<and> take (length old) (c # s) = old
      then new @ ReplaceAll (drop (length old) (c # s)) old new
      else c # ReplaceAll s old new)"

text \<open>Lines 127 to 153: the lookup succeeded.\<close>

definition createChannel_existing ::
  "env \<Rightarrow> string \<Rightarrow> string \<Rightarrow> string \<Rightarrow> string \<Rightarrow> channel \<Rightarrow> effect list
     \<Rightarrow> error option \<times> effect list" where
  "createChannel_existing env project loc channelId channelName existingChannel h =
     (let evs1 = [EvLog (''Channel '' @ channelName @ '' already exists.'')];
          channelInfo = [(''channelID'', channelName),
                         (''inputID'', inputPath project loc inputID),
                         (''gcsoutput'', channel_Output_Uri existingChannel)]
      in case MarshalIndent env channelInfo of
           Inl e \<Rightarrow> (Some (Wrap ''JSON marshal error'' e), evs1)
         | Inr prettyJSON \<Rightarrow>
             (let evs2 = evs1 @ [EvWrite prettyJSON, EvWrite ''\<newline>''];
                  (r, evs3) = writeFile_existing env (channelId @ ''.json'') prettyJSON
                                ''Error creating channel file'' ''Error writing channel file''
                                (h @ evs2)
              in (r, evs2 @ evs3)))"

text \<open>
  Lines 156 to 169: the template is read, the two markers are replaced, and only then
  is the error of the read looked at (a failed read gives the empty string).
\<close>

definition requestString :: "string \<Rightarrow> string \<Rightarrow> string \<Rightarrow> string" where
  "requestString project loc requestJSON =
     (let requestStr = requestJSON;
          requestStr = ReplaceAll requestStr ''<GCS_OUTPUT>'' gcsoutput;
          requestStr = ReplaceAll requestStr ''<GCP_OTHER_INFO>'' (inputPath project loc inputID)
      in requestStr)"

text \<open>Lines 156 to 214: the lookup returned an error, whatever it is.\<close>

definition createChannel_create ::
  "env \<Rightarrow> string \<Rightarrow> string \<Rightarrow> string \<Rightarrow> string \<Rightarrow> effect list \<Rightarrow> error option \<times> effect list" where
  "createChannel_create env project loc channelId requestJSONPath h =
     (let rd = os_ReadFile env h requestJSONPath;
          requestStr = requestString project loc (case rd of Inl e \<Rightarrow> [] | Inr s \<Rightarrow> s);
          evs1 = [EvReadFile requestJSONPath]
      in case rd of
           Inl e \<Rightarrow> (Some (Wrap ''ReadFile'' e), evs1)
         | Inr s \<Rightarrow>
             (case Unmarshal env requestStr of
                Inl e \<Rightarrow> (Some (Wrap ''Unmarshal'' e), evs1)
              | Inr chan \<Rightarrow>
                  (let parent = parentPath project loc;
                       evs2 = evs1 @ [EvCreateChannel parent channelId chan]
                   in case CreateChannel env (h @ evs1) parent channelId chan of
                        Some e \<Rightarrow> (Some (Wrap ''CreateChannel'' e), evs2)
                      | None \<Rightarrow>
                          (case WaitCreateChannel env (h @ evs2) of
                             Inl e \<Rightarrow>
                               (Some (Wrap ''Wait'' e), evs2 @ [EvWaitCreateChannel channelId])
                           | Inr response \<Rightarrow>
                               (let evs3 = evs2 @ [EvWaitCreateChannel channelId,
                                      EvLog (''Channel created: '' @ channel_Name response)];
                                    channelInfo =
                                      [(''channelID'', channel_Name response),
                                       (''inputID'', inputPath project loc inputID),
                                       (''gcsoutput'', channel_Output_Uri response)]
                                in case MarshalIndent env channelInfo of
                                     Inl e \<Rightarrow> (Some (Wrap ''JSON marshal error'' e), evs3)
                                   | Inr prettyJSON \<Rightarrow>
                                       (let evs4 = evs3 @ [EvWrite prettyJSON,
                                                           EvWrite ''\<newline>''];
                                            (r, evs5) =
                                              writeFile_created env (channelId @ ''.json'')
                                                prettyJSON ''Error creating channel file''
                                                ''Error writing channel file'' (h @ evs4)
                                        in (r, evs4 @ evs5)))))))"

definition createChannelIfNotExists ::
  "env \<Rightarrow> string \<Rightarrow> string \<Rightarrow> string \<Rightarrow> string \<Rightarrow> effect list \<Rightarrow> error option \<times> effect list" where
  "createChannelIfNotExists env project loc channelId requestJSONPath h =
     (case NewClient env h of
        Some e \<Rightarrow> (Some (Wrap ''NewClient'' e), [EvNewClient])
      | None \<Rightarrow>
          (let channelName = channelPath project loc channelId;
               evs1 = [EvNewClient, EvGetChannel channelName];
               (r, evs2) =
                 (case GetChannel env (h @ [EvNewClient]) channelName of
                    Inr existingChannel \<Rightarrow>
                      createChannel_existing env project loc channelId channelName
                        existingChannel (h @ evs1)
                  | Inl err \<Rightarrow>
                      createChannel_create env project loc channelId requestJSONPath (h @ evs1))
           in (r, evs1 @ evs2 @ [EvClientClose])))"

section \<open>The provisioning program: channel state, start and polling\<close>









section \<open>Specification-level notions\<close>

text \<open>
  What a listing holds, in the words of the specification: the ordered sequence of the
  items it yields, and the pagination failure it ends with, if any.
\<close>

fun yielded :: "'a iterator \<Rightarrow> 'a list" where
  "yielded Done = []"
| "yielded (Fail e) = []"
| "yielded (Yield x it) = x # yielded it"

fun failure :: "'a iterator \<Rightarrow> error option" where
  "failure Done = None"
| "failure (Fail e) = Some e"
| "failure (Yield x it) = failure it"

text \<open>The stop and delete calls among some effects, in their order.\<close>

fun is_teardown_call :: "effect \<Rightarrow> bool" where
  "is_teardown_call (EvStopChannel n) = True"
| "is_teardown_call (EvDeleteChannel n) = True"
| "is_teardown_call (EvDeleteInput n) = True"
| "is_teardown_call _ = False"

definition teardown_calls :: "effect list \<Rightarrow> effect list" where
  "teardown_calls evs = filter is_teardown_call evs"

text \<open>The log lines of the report loop for the events of one channel.\<close>

definition event_logs :: "string \<Rightarrow> event list \<Rightarrow> effect list" where
  "event_logs name events =
     (if length events > 0
      then EvLog (''  Events for channel '' @ name @ '':'')
           # map (\<lambda>ev. EvLog (''    - '' @ event_Name ev)) events
      else [])"

section \<open>Example environments\<close>

text \<open>
  An environment in which nothing exists yet and every call succeeds; the examples
  below change single answers of it.
\<close>

definition env_ok :: env where
  "env_ok =
     \<lparr> NewClient = (\<lambda>h. None),
       GetInput = (\<lambda>h n. Inl NotFound),
       CreateInput = (\<lambda>h parent i inp. None),
       WaitCreateInput = (\<lambda>h. Inr \<lparr>input_Name = inputPath projectID location inputID,
                                    input_Type = RTMP_PUSH,
                                    input_Uri = ''rtmp://ingest/live''\<rparr>),
       GetChannel = (\<lambda>h n. Inl NotFound),
       CreateChannel = (\<lambda>h parent i chan. None),
       WaitCreateChannel = (\<lambda>h. Inr \<lparr>channel_Name = channelPath projectID location channelID,
                                      channel_Output_Uri = gcsoutput,
                                      channel_StreamingState = STOPPED\<rparr>),
       StartChannel = (\<lambda>h n. None),
       WaitStartChannel = (\<lambda>h. None),
       StopChannel = (\<lambda>h n. None),
       WaitStopChannel = (\<lambda>h. None),
       DeleteInput = (\<lambda>h n. None),
       DeleteChannel = (\<lambda>h n. None),
       ListInputs = (\<lambda>h parent. Done),
       ListChannels = (\<lambda>h parent. Done),
       ListEvents = (\<lambda>h parent. Done),
       os_Create = (\<lambda>h f. None),
       file_Write = (\<lambda>h f s. None),
       os_ReadFile = (\<lambda>h f. Inr ''{}''),
       MarshalIndent = (\<lambda>doc. Inr (concat (map (\<lambda>(k, v). k @ ''='' @ v @ '';'') doc))),
       Unmarshal = (\<lambda>s. Inr \<lparr>channel_Name = [], channel_Output_Uri = [],
                              channel_StreamingState = STREAMING_STATE_UNSPECIFIED\<rparr>) \<rparr>"

text \<open>One channel is listed, and the listing of its events fails.\<close>

definition env_events_fail :: env where
  "env_events_fail =
     env_ok \<lparr> ListChannels := (\<lambda>h parent. Yield \<lparr>channel_Name = ''ch'', channel_Output_Uri = [],
                                                channel_StreamingState = STOPPED\<rparr> Done),
              ListEvents := (\<lambda>h parent. Fail Unavailable) \<rparr>"



text \<open>The creations of a snapshot file among some effects.\<close>

fun is_os_create :: "effect \<Rightarrow> bool" where
  "is_os_create (EvOsCreate f) = True"
| "is_os_create _ = False"

text \<open>The snapshot file cannot be created: nothing exists yet, or both resources exist.\<close>

definition env_no_file :: env where
  "env_no_file = env_ok \<lparr> os_Create := (\<lambda>h f. Some PermissionDenied) \<rparr>"

definition env_found_no_file :: env where
  "env_found_no_file =
     env_ok \<lparr> GetInput := (\<lambda>h n. Inr \<lparr>input_Name = n, input_Type = RTMP_PUSH,
                                         input_Uri = ''rtmp://ingest/live''\<rparr>),
              GetChannel := (\<lambda>h n. Inr \<lparr>channel_Name = n, channel_Output_Uri = gcsoutput,
                                           channel_StreamingState = STOPPED\<rparr>),
              os_Create := (\<lambda>h f. Some PermissionDenied) \<rparr>"

section \<open>Properties of the listing functions\<close>

lemma listInputs_loop_acc:
  "listInputs_loop it acc =
     (case failure it of None \<Rightarrow> Inr (acc @ yielded it)
      | Some e \<Rightarrow> Inl (Wrap ''ListInputsIterator'' e))"
  by (induction it arbitrary: acc) (simp_all split: option.splits)

lemma listChannels_loop_acc:
  "listChannels_loop it acc =
     (case failure it of None \<Rightarrow> Inr (acc @ yielded it)
      | Some e \<Rightarrow> Inl (Wrap ''ListChannelsIterator'' e))"
  by (induction it arbitrary: acc) (simp_all split: option.splits)

lemma listEvents_loop_acc:
  "listEvents_loop it acc =
     (case failure it of None \<Rightarrow> Inr (acc @ yielded it)
      | Some e \<Rightarrow> Inl (Wrap ''ListEventsIterator'' e))"
  by (induction it arbitrary: acc) (simp_all split: option.splits)

text \<open>
  C7. Each of \<open>listInputs\<close>, \<open>listChannels\<close> and \<open>listEvents\<close> returns the ordered
  sequence of all yielded items when the listing is drained without a failure, and
  returns an error, with nothing of the accumulated prefix, when a pagination step
  fails.
\<close>

theorem list_all_or_error:
  "fst (listInputs env project loc h) =
     (case failure (ListInputs env h (parentPath project loc)) of
        None \<Rightarrow> Inr (yielded (ListInputs env h (parentPath project loc)))
      | Some e \<Rightarrow> Inl (Wrap ''ListInputsIterator'' e))
   \<and> fst (listChannels env project loc h) =
     (case failure (ListChannels env h (parentPath project loc)) of
        None \<Rightarrow> Inr (yielded (ListChannels env h (parentPath project loc)))
      | Some e \<Rightarrow> Inl (Wrap ''ListChannelsIterator'' e))
   \<and> fst (listEvents env project loc channelName h) =
     (case failure (ListEvents env h channelName) of
        None \<Rightarrow> Inr (yielded (ListEvents env h channelName))
      | Some e \<Rightarrow> Inl (Wrap ''ListEventsIterator'' e))"
  by (simp add: listInputs_def listChannels_def listEvents_def
      listInputs_loop_acc listChannels_loop_acc listEvents_loop_acc Let_def
      split: option.splits)

section \<open>Properties of the teardown program\<close>

lemma teardown_calls_append [simp]: "teardown_calls (a @ b) = teardown_calls a @ teardown_calls b"
  by (simp add: teardown_calls_def)

lemma teardown_calls_Nil [simp]: "teardown_calls [] = []"
  by (simp add: teardown_calls_def)

lemma teardown_calls_Cons [simp]:
  "teardown_calls (x # xs) = (if is_teardown_call x then x # teardown_calls xs else teardown_calls xs)"
  by (simp add: teardown_calls_def)





lemma split_in_suffix:
  "a @ b = pre @ x # post \<Longrightarrow> x \<notin> set a \<Longrightarrow> \<exists>pre'. pre = a @ pre' \<and> b = pre' @ x # post"
proof (induction a arbitrary: pre)
  case Nil
  then show ?case by simp
next
  case (Cons y a)
  then show ?case by (cases pre) auto
qed

lemma split_in_prefix:
  "a @ b = pre @ x # post \<Longrightarrow> x \<notin> set b \<Longrightarrow> \<exists>post'. post = post' @ b \<and> a = pre @ x # post'"
proof (induction a arbitrary: pre)
  case Nil
  then show ?case by (metis append_Nil in_set_conv_decomp)
next
  case (Cons y a)
  then show ?case by (cases pre) auto
qed

lemma event_logs_no_list: "EvListEvents n \<notin> set (event_logs name events)"
  by (auto simp: event_logs_def)

lemma report_Cons_fail:
  "failure (ListEvents env (h @ [EvLog (''- '' @ channel_Name chan)]) (channel_Name chan)) = Some e \<Longrightarrow>
   deleteAll_report env (chan # cs) h =
     (False, [EvLog (''- '' @ channel_Name chan), EvListEvents (channel_Name chan),
              EvLogErr (''Error listing events for channel '' @ channel_Name chan)
                (Wrap ''ListEventsIterator'' e)])"
  by (simp add: listEvents_def listEvents_loop_acc Let_def)

lemma report_Cons_ok:
  "failure (ListEvents env (h @ [EvLog (''- '' @ channel_Name chan)]) (channel_Name chan)) = None \<Longrightarrow>
   deleteAll_report env (chan # cs) h =
     (fst (deleteAll_report env cs
        (h @ [EvLog (''- '' @ channel_Name chan), EvListEvents (channel_Name chan)]
           @ event_logs (channel_Name chan)
               (yielded (ListEvents env (h @ [EvLog (''- '' @ channel_Name chan)]) (channel_Name chan))))),
      [EvLog (''- '' @ channel_Name chan), EvListEvents (channel_Name chan)]
        @ event_logs (channel_Name chan)
               (yielded (ListEvents env (h @ [EvLog (''- '' @ channel_Name chan)]) (channel_Name chan)))
        @ snd (deleteAll_report env cs
        (h @ [EvLog (''- '' @ channel_Name chan), EvListEvents (channel_Name chan)]
           @ event_logs (channel_Name chan)
               (yielded (ListEvents env (h @ [EvLog (''- '' @ channel_Name chan)]) (channel_Name chan))))))"
  by (simp add: listEvents_def listEvents_loop_acc Let_def split_beta event_logs_def)

lemma report_failed_listing:
  "snd (deleteAll_report env cs h) = pre @ EvListEvents n # post \<Longrightarrow>
   failure (ListEvents env (h @ pre) n) = Some e \<Longrightarrow>
   \<not> fst (deleteAll_report env cs h)
   \<and> post = [EvLogErr (''Error listing events for channel '' @ n) (Wrap ''ListEventsIterator'' e)]"
proof (induction cs arbitrary: h pre)
  case Nil
  then show ?case by simp
next
  case (Cons chan cs)
  let ?name = "channel_Name chan"
  let ?it = "ListEvents env (h @ [EvLog (''- '' @ ?name)]) ?name"
  show ?case
  proof (cases "failure ?it")
    case (Some e')
    note rep = report_Cons_fail [OF Some, of cs]
    from Cons.prems(1) have
      eq: "[EvLog (''- '' @ ?name), EvListEvents ?name,
            EvLogErr (''Error listing events for channel '' @ ?name) (Wrap ''ListEventsIterator'' e')]
           = pre @ EvListEvents n # post"
      unfolding rep by simp
    then have "pre = [EvLog (''- '' @ ?name)] \<and> n = ?name
               \<and> post = [EvLogErr (''Error listing events for channel '' @ ?name) (Wrap ''ListEventsIterator'' e')]"
      by (auto simp: Cons_eq_append_conv)
    with Some Cons.prems(2) show ?thesis unfolding rep by simp
  next
    case None
    let ?evs3 = "[EvLog (''- '' @ ?name), EvListEvents ?name] @ event_logs ?name (yielded ?it)"
    note rep = report_Cons_ok [OF None, of cs]
    from Cons.prems(1) have
      eq: "EvLog (''- '' @ ?name) # EvListEvents ?name #
             (event_logs ?name (yielded ?it) @ snd (deleteAll_report env cs (h @ ?evs3)))
           = pre @ EvListEvents n # post"
      unfolding rep by simp
    then consider (here) "pre = [EvLog (''- '' @ ?name)]" "n = ?name"
      | (later) pre' where "pre = EvLog (''- '' @ ?name) # EvListEvents ?name # pre'"
          "event_logs ?name (yielded ?it) @ snd (deleteAll_report env cs (h @ ?evs3))
             = pre' @ EvListEvents n # post"
      by (auto simp: Cons_eq_append_conv)
    then show ?thesis
    proof cases
      case here
      with None Cons.prems(2) show ?thesis unfolding rep by simp
    next
      case later
      from split_in_suffix [OF later(2) event_logs_no_list]
      obtain pre'' where p: "pre' = event_logs ?name (yielded ?it) @ pre''"
        and r: "snd (deleteAll_report env cs (h @ ?evs3)) = pre'' @ EvListEvents n # post"
        by blast
      have "(h @ ?evs3) @ pre'' = h @ pre" using later(1) p by simp
      with Cons.prems(2) have "failure (ListEvents env ((h @ ?evs3) @ pre'') n) = Some e" by simp
      from Cons.IH [OF r this] show ?thesis unfolding rep by simp
    qed
  qed
qed


lemma teardown_calls_logs [simp]: "teardown_calls (map (\<lambda>x. EvLog (f x)) xs) = []"
  by (induction xs) simp_all

lemma teardown_calls_report: "teardown_calls (snd (deleteAll_report env cs h)) = []"
  by (induction cs arbitrary: h)
     (simp_all add: listEvents_def Let_def split_beta split: sum.splits)




lemma no_list_stopChannel: "EvListEvents n \<notin> set (snd (stopChannel env c h))"
  by (simp add: stopChannel_def split: option.splits)

lemma no_list_channels_loop: "EvListEvents n \<notin> set (snd (deleteAllChannels_loop env it h))"
proof (induction it arbitrary: h)
  case (Yield c it)
  show ?case
    using no_list_stopChannel [of n env "channel_Name c" h]
    by (simp add: Let_def split_beta Yield.IH split: option.splits)
qed simp_all

lemma no_list_inputs_loop: "EvListEvents n \<notin> set (snd (deleteAllInputs_loop env it h))"
proof (induction it arbitrary: h)
  case (Yield c it)
  show ?case
    by (simp add: Let_def split_beta Yield.IH split: option.splits)
qed simp_all

lemma no_list_teardown: "EvListEvents n \<notin> set (deleteAll_teardown env h)"
  by (simp add: deleteAll_teardown_def deleteAllChannels_def deleteAllInputs_def Let_def split_beta
      no_list_channels_loop no_list_inputs_loop split: option.splits)

text \<open>The shape of a run of main.\<close>

lemma deleteAll_main_shape:
  "(teardown_calls (deleteAll_main env) = [] \<and> (\<forall>n. EvListEvents n \<notin> set (deleteAll_main env)))
   \<or> (\<exists>h4 chans. teardown_calls h4 = [] \<and> (\<forall>n. EvListEvents n \<notin> set h4)
        \<and> deleteAll_main env =
            h4 @ snd (deleteAll_report env chans h4)
            @ (if fst (deleteAll_report env chans h4)
               then deleteAll_teardown env (h4 @ snd (deleteAll_report env chans h4)) @ [EvClientClose]
               else [EvClientClose]))"
proof (cases "NewClient env []")
  case (Some e)
  then show ?thesis by (simp add: deleteAll_main_def)
next
  case None
  show ?thesis
  proof (cases "fst (listInputs env projectID location [EvNewClient])")
    case (Inl e)
    with None show ?thesis
      by (simp add: deleteAll_main_def Let_def split_beta listInputs_def)
  next
    case (Inr inputs)
    let ?h2 = "[EvNewClient] @ snd (listInputs env projectID location [EvNewClient])
               @ [EvLog ''Inputs:''] @ map (\<lambda>inp. EvLog (''- '' @ input_Name inp)) inputs"
    show ?thesis
    proof (cases "fst (listChannels env projectID location ?h2)")
      case (Inl e)
      with None Inr show ?thesis
        by (auto simp add: deleteAll_main_def Let_def split_beta listInputs_def listChannels_def)
    next
      case chans: (Inr chans)
      let ?h4 = "?h2 @ snd (listChannels env projectID location ?h2) @ [EvLog ''Channels:'']"
      have a: "teardown_calls ?h4 = []"
        by (simp add: listInputs_def listChannels_def Let_def)
      have b: "\<forall>n. EvListEvents n \<notin> set ?h4"
        by (auto simp add: listInputs_def listChannels_def Let_def)
      have c: "deleteAll_main env =
            ?h4 @ snd (deleteAll_report env chans ?h4)
            @ (if fst (deleteAll_report env chans ?h4)
               then deleteAll_teardown env (?h4 @ snd (deleteAll_report env chans ?h4)) @ [EvClientClose]
               else [EvClientClose])"
        using None Inr chans
        by (simp add: deleteAll_main_def Let_def split_beta)
      from a b c show ?thesis by blast
    qed
  qed
qed



text \<open>
  C9. If, at any point of a run of the teardown program, the events of a channel are listed
  and this listing fails, then the run ends there: what follows the listing call is the
  log line of the error and the closing of the client, and the whole run contains no stop
  call and no delete call, for any channel or input.
\<close>

theorem events_failure_ends_run:
  assumes run: "deleteAll_main env = pre @ EvListEvents n # post"
    and fails: "failure (ListEvents env pre n) = Some e"
  shows "teardown_calls (deleteAll_main env) = []
         \<and> post = [EvLogErr (''Error listing events for channel '' @ n) (Wrap ''ListEventsIterator'' e),
                    EvClientClose]"
  using deleteAll_main_shape [of env]
proof
  assume "teardown_calls (deleteAll_main env) = [] \<and> (\<forall>n. EvListEvents n \<notin> set (deleteAll_main env))"
  with run show ?thesis by auto
next
  assume "\<exists>h4 chans. teardown_calls h4 = [] \<and> (\<forall>n. EvListEvents n \<notin> set h4)
        \<and> deleteAll_main env =
            h4 @ snd (deleteAll_report env chans h4)
            @ (if fst (deleteAll_report env chans h4)
               then deleteAll_teardown env (h4 @ snd (deleteAll_report env chans h4)) @ [EvClientClose]
               else [EvClientClose])"
  then obtain h4 chans where a: "teardown_calls h4 = []" and b: "EvListEvents n \<notin> set h4"
      and m: "deleteAll_main env =
            h4 @ snd (deleteAll_report env chans h4)
            @ (if fst (deleteAll_report env chans h4)
               then deleteAll_teardown env (h4 @ snd (deleteAll_report env chans h4)) @ [EvClientClose]
               else [EvClientClose])" by blast
  let ?R = "snd (deleteAll_report env chans h4)"
  let ?T = "if fst (deleteAll_report env chans h4)
               then deleteAll_teardown env (h4 @ ?R) @ [EvClientClose]
               else [EvClientClose]"
  from run m have "h4 @ (?R @ ?T) = pre @ EvListEvents n # post" by simp
  from split_in_suffix [OF this b] obtain pre' where
    p: "pre = h4 @ pre'" and r: "?R @ ?T = pre' @ EvListEvents n # post" by blast
  have "EvListEvents n \<notin> set ?T" by (simp add: no_list_teardown)
  from split_in_prefix [OF r this] obtain post' where
    q: "post = post' @ ?T" and r': "?R = pre' @ EvListEvents n # post'" by blast
  from fails p have "failure (ListEvents env (h4 @ pre') n) = Some e" by simp
  from report_failed_listing [OF r' this]
  have f: "\<not> fst (deleteAll_report env chans h4)"
    and po: "post' = [EvLogErr (''Error listing events for channel '' @ n) (Wrap ''ListEventsIterator'' e)]"
    by simp_all
  from m f a have "teardown_calls (deleteAll_main env) = []"
    by (simp add: teardown_calls_report)
  moreover from q f po have "post = [EvLogErr (''Error listing events for channel '' @ n) (Wrap ''ListEventsIterator'' e),
                    EvClientClose]" by simp
  ultimately show ?thesis by simp
qed


theorem events_failure_ends_run_witness:
  "teardown_calls (deleteAll_main env_events_fail) = []
   \<and> deleteAll_main env_events_fail =
       [EvNewClient, EvListInputs (parentPath projectID location), EvLog ''Inputs:'',
        EvListChannels (parentPath projectID location), EvLog ''Channels:'', EvLog ''- ch'',
        EvListEvents ''ch'',
        EvLogErr ''Error listing events for channel ch'' (Wrap ''ListEventsIterator'' Unavailable),
        EvClientClose]"
proof -
  have run: "deleteAll_main env_events_fail =
       [EvNewClient, EvListInputs (parentPath projectID location), EvLog ''Inputs:'',
        EvListChannels (parentPath projectID location), EvLog ''Channels:'', EvLog ''- ch'']
       @ EvListEvents ''ch''
       # [EvLogErr ''Error listing events for channel ch'' (Wrap ''ListEventsIterator'' Unavailable),
          EvClientClose]"
    by (simp add: deleteAll_main_def env_events_fail_def env_ok_def listInputs_def
        listChannels_def listEvents_def Let_def)
  have fails: "failure (ListEvents env_events_fail
       [EvNewClient, EvListInputs (parentPath projectID location), EvLog ''Inputs:'',
        EvListChannels (parentPath projectID location), EvLog ''Channels:'', EvLog ''- ch'']
       ''ch'') = Some Unavailable"
    by (simp add: env_events_fail_def env_ok_def)
  from events_failure_ends_run [OF run fails] run show ?thesis by simp
qed
section \<open>Best effort: the delete loops and the polling loop\<close>




















section \<open>The snapshot file of the ensure functions\<close>

lemma unique_split:
  "a @ x # b = pre @ y # post \<Longrightarrow> P x \<Longrightarrow> P y \<Longrightarrow> \<forall>z\<in>set a. \<not> P z \<Longrightarrow> \<forall>z\<in>set b. \<not> P z
   \<Longrightarrow> pre = a \<and> y = x \<and> post = b"
proof (induction a arbitrary: pre)
  case Nil
  then show ?case by (cases pre) auto
next
  case (Cons z a)
  then show ?case by (cases pre) auto
qed

lemma no_split:
  "xs = pre @ y # post \<Longrightarrow> P y \<Longrightarrow> \<forall>z\<in>set xs. \<not> P z \<Longrightarrow> False"
  by auto

lemma writeFile_existing_shape:
  "snd (writeFile_existing env f js a b h) = EvOsCreate f # tl (snd (writeFile_existing env f js a b h))
   \<and> (\<forall>z\<in>set (tl (snd (writeFile_existing env f js a b h))). \<not> is_os_create z)
   \<and> (os_Create env h f = Some e \<longrightarrow>
        writeFile_existing env f js a b h = (Some (Msg a e), [EvOsCreate f]))"
  by (simp add: writeFile_existing_def split: option.splits)

lemma writeFile_created_shape:
  "snd (writeFile_created env f js a b h) = EvOsCreate f # tl (snd (writeFile_created env f js a b h))
   \<and> (\<forall>z\<in>set (tl (snd (writeFile_created env f js a b h))). \<not> is_os_create z)
   \<and> (os_Create env h f = Some e \<longrightarrow>
        writeFile_created env f js a b h = (None, [EvOsCreate f, EvLogErr a e]))"
  by (simp add: writeFile_created_def split: option.splits)

lemma createInput_existing_os_create:
  assumes "snd (createInput_existing env i n x h) = pre @ EvOsCreate f # post"
    and "os_Create env (h @ pre) f = Some e"
  shows "fst (createInput_existing env i n x h) = Some (Msg ''Error creating input file'' e)
         \<and> post = []"
proof (cases "MarshalIndent env [(''inputID'', n), (''uri'', input_Uri x)]")
  case (Inl e')
  with assms(1) show ?thesis
    by (simp add: createInput_existing_def Let_def Cons_eq_append_conv)
next
  case (Inr js)
  let ?a = "[EvLog (''Input '' @ n @ '' already exists.''), EvWrite js, EvWrite ''\<newline>'']"
  let ?w = "writeFile_existing env (i @ ''.json'') js ''Error creating input file''
              ''Error writing to input file'' (h @ ?a)"
  have r: "createInput_existing env i n x h = (fst ?w, ?a @ snd ?w)"
    using Inr by (simp add: createInput_existing_def Let_def split_beta)
  note sh = writeFile_existing_shape [of env "i @ ''.json''" js "''Error creating input file''"
              "''Error writing to input file''" "h @ ?a" e]
  from sh have s1: "snd ?w = EvOsCreate (i @ ''.json'') # tl (snd ?w)" by blast
  from assms(1) r have "?a @ EvOsCreate (i @ ''.json'') # tl (snd ?w) = pre @ EvOsCreate f # post"
    using s1 by simp
  from unique_split [OF this, of is_os_create] sh
  have p: "pre = ?a" and ff: "f = i @ ''.json''" and po: "post = tl (snd ?w)" by auto
  from assms(2) p ff have "os_Create env (h @ ?a) (i @ ''.json'') = Some e" by simp
  with sh have "?w = (Some (Msg ''Error creating input file'' e), [EvOsCreate (i @ ''.json'')])"
    by blast
  with r po show ?thesis by simp
qed

lemma createInput_create_os_create:
  assumes "snd (createInput_create env p l i h) = pre @ EvOsCreate f # post"
    and "os_Create env (h @ pre) f = Some e"
  shows "fst (createInput_create env p l i h) = None
         \<and> post = [EvLogErr ''Error creating input file'' e]"
proof -
  let ?new = "\<lparr>input_Name = [], input_Type = RTMP_PUSH, input_Uri = []\<rparr>"
  let ?c = "EvCreateInput (parentPath p l) i ?new"
  show ?thesis
  proof (cases "CreateInput env h (parentPath p l) i ?new")
    case (Some e')
    with assms(1) show ?thesis
      by (simp add: createInput_create_def Let_def Cons_eq_append_conv)
  next
    case None
    show ?thesis
    proof (cases "WaitCreateInput env (h @ [?c])")
      case (Inl e')
      with None assms(1) show ?thesis
        by (simp add: createInput_create_def Let_def Cons_eq_append_conv)
    next
      case (Inr response)
      show ?thesis
      proof (cases "MarshalIndent env [(''inputID'', input_Name response), (''uri'', input_Uri response)]")
        case (Inl e')
        with None Inr assms(1) show ?thesis
          by (simp add: createInput_create_def Let_def Cons_eq_append_conv)
      next
        case js: (Inr js)
        let ?a = "[?c, EvWaitCreateInput i, EvLog (''Input created: '' @ input_Name response),
                   EvWrite js, EvWrite ''\<newline>'']"
        let ?w = "writeFile_created env (i @ ''.json'') js ''Error creating input file''
                    ''Error writing to input file'' (h @ ?a)"
        have r: "createInput_create env p l i h = (fst ?w, ?a @ snd ?w)"
          using None Inr js by (simp add: createInput_create_def Let_def split_beta)
        note sh = writeFile_created_shape [of env "i @ ''.json''" js "''Error creating input file''"
                    "''Error writing to input file''" "h @ ?a" e]
        from sh have s1: "snd ?w = EvOsCreate (i @ ''.json'') # tl (snd ?w)" by blast
        from assms(1) r have "?a @ EvOsCreate (i @ ''.json'') # tl (snd ?w) = pre @ EvOsCreate f # post"
          using s1 by simp
        from unique_split [OF this, of is_os_create] sh
        have p: "pre = ?a" and ff: "f = i @ ''.json''" and po: "post = tl (snd ?w)" by auto
        from assms(2) p ff have "os_Create env (h @ ?a) (i @ ''.json'') = Some e" by simp
        with sh have "?w = (None, [EvOsCreate (i @ ''.json''), EvLogErr ''Error creating input file'' e])"
          by blast
        with r po show ?thesis by simp
      qed
    qed
  qed
qed

lemma createInputIfNotExists_os_create:
  assumes "snd (createInputIfNotExists env p l i h) = pre @ EvOsCreate f # post"
    and "os_Create env (h @ pre) f = Some e"
  shows "case GetInput env (h @ [EvNewClient]) (inputPath p l i) of
           Inr x \<Rightarrow>
             fst (createInputIfNotExists env p l i h) = Some (Msg ''Error creating input file'' e)
             \<and> post = [EvClientClose]
         | Inl err \<Rightarrow>
             fst (createInputIfNotExists env p l i h) = None
             \<and> post = [EvLogErr ''Error creating input file'' e, EvClientClose]"
proof (cases "NewClient env h")
  case (Some e')
  with assms(1) show ?thesis
    by (simp add: createInputIfNotExists_def Cons_eq_append_conv)
next
  case None
  let ?n = "inputPath p l i"
  let ?a = "[EvNewClient, EvGetInput ?n]"
  let ?b = "case GetInput env (h @ [EvNewClient]) ?n of
              Inr x \<Rightarrow> createInput_existing env i ?n x (h @ ?a)
            | Inl err \<Rightarrow> createInput_create env p l i (h @ ?a)"
  have r: "createInputIfNotExists env p l i h = (fst ?b, ?a @ snd ?b @ [EvClientClose])"
    using None by (simp add: createInputIfNotExists_def Let_def split_beta)
  from assms(1) r have "?a @ (snd ?b @ [EvClientClose]) = pre @ EvOsCreate f # post" by simp
  from split_in_suffix [OF this] obtain pre' where p: "pre = ?a @ pre'"
    and "snd ?b @ [EvClientClose] = pre' @ EvOsCreate f # post" by auto
  from split_in_prefix [OF this(2)] obtain post' where po: "post = post' @ [EvClientClose]"
    and b: "snd ?b = pre' @ EvOsCreate f # post'" by auto
  from assms(2) p have o: "os_Create env ((h @ ?a) @ pre') f = Some e" by simp
  show ?thesis
  proof (cases "GetInput env (h @ [EvNewClient]) ?n")
    case (Inr x)
    with b have "snd (createInput_existing env i ?n x (h @ ?a)) = pre' @ EvOsCreate f # post'"
      by simp
    from createInput_existing_os_create [OF this o] Inr r po show ?thesis by simp
  next
    case (Inl err)
    with b have "snd (createInput_create env p l i (h @ ?a)) = pre' @ EvOsCreate f # post'"
      by simp
    from createInput_create_os_create [OF this o] Inl r po show ?thesis by simp
  qed
qed


lemma createChannel_existing_os_create:
  assumes "snd (createChannel_existing env p l i n x h) = pre @ EvOsCreate f # post"
    and "os_Create env (h @ pre) f = Some e"
  shows "fst (createChannel_existing env p l i n x h) = Some (Msg ''Error creating channel file'' e)
         \<and> post = []"
proof (cases "MarshalIndent env [(''channelID'', n), (''inputID'', inputPath p l inputID),
                                 (''gcsoutput'', channel_Output_Uri x)]")
  case (Inl e')
  with assms(1) show ?thesis
    by (simp add: createChannel_existing_def Let_def Cons_eq_append_conv)
next
  case (Inr js)
  let ?a = "[EvLog (''Channel '' @ n @ '' already exists.''), EvWrite js, EvWrite ''\<newline>'']"
  let ?w = "writeFile_existing env (i @ ''.json'') js ''Error creating channel file''
              ''Error writing channel file'' (h @ ?a)"
  have r: "createChannel_existing env p l i n x h = (fst ?w, ?a @ snd ?w)"
    using Inr by (simp add: createChannel_existing_def Let_def split_beta)
  note sh = writeFile_existing_shape [of env "i @ ''.json''" js "''Error creating channel file''"
              "''Error writing channel file''" "h @ ?a" e]
  from sh have s1: "snd ?w = EvOsCreate (i @ ''.json'') # tl (snd ?w)" by blast
  from assms(1) r have "?a @ EvOsCreate (i @ ''.json'') # tl (snd ?w) = pre @ EvOsCreate f # post"
    using s1 by simp
  from unique_split [OF this, of is_os_create] sh
  have p: "pre = ?a" and ff: "f = i @ ''.json''" and po: "post = tl (snd ?w)" by auto
  from assms(2) p ff have "os_Create env (h @ ?a) (i @ ''.json'') = Some e" by simp
  with sh have "?w = (Some (Msg ''Error creating channel file'' e), [EvOsCreate (i @ ''.json'')])"
    by blast
  with r po show ?thesis by simp
qed

lemma createChannel_create_os_create:
  assumes "snd (createChannel_create env p l i path h) = pre @ EvOsCreate f # post"
    and "os_Create env (h @ pre) f = Some e"
  shows "fst (createChannel_create env p l i path h) = None
         \<and> post = [EvLogErr ''Error creating channel file'' e]"
proof (cases "os_ReadFile env h path")
  case (Inl e')
  with assms(1) show ?thesis
    by (simp add: createChannel_create_def Let_def Cons_eq_append_conv)
next
  case rd: (Inr s)
  show ?thesis
  proof (cases "Unmarshal env (requestString p l s)")
    case (Inl e')
    with rd assms(1) show ?thesis
      by (simp add: createChannel_create_def Let_def Cons_eq_append_conv)
  next
    case um: (Inr chan)
    let ?c = "EvCreateChannel (parentPath p l) i chan"
    show ?thesis
    proof (cases "CreateChannel env (h @ [EvReadFile path]) (parentPath p l) i chan")
      case (Some e')
      with rd um assms(1) show ?thesis
        by (simp add: createChannel_create_def Let_def Cons_eq_append_conv)
    next
      case None
      show ?thesis
      proof (cases "WaitCreateChannel env (h @ [EvReadFile path, ?c])")
        case (Inl e')
        with rd um None assms(1) show ?thesis
          by (simp add: createChannel_create_def Let_def Cons_eq_append_conv)
      next
        case (Inr response)
        show ?thesis
        proof (cases "MarshalIndent env [(''channelID'', channel_Name response),
                         (''inputID'', inputPath p l inputID),
                         (''gcsoutput'', channel_Output_Uri response)]")
          case (Inl e')
          with rd um None Inr assms(1) show ?thesis
            by (simp add: createChannel_create_def Let_def Cons_eq_append_conv)
        next
          case js: (Inr js)
          let ?a = "[EvReadFile path, ?c, EvWaitCreateChannel i,
                     EvLog (''Channel created: '' @ channel_Name response),
                     EvWrite js, EvWrite ''\<newline>'']"
          let ?w = "writeFile_created env (i @ ''.json'') js ''Error creating channel file''
                      ''Error writing channel file'' (h @ ?a)"
          have r: "createChannel_create env p l i path h = (fst ?w, ?a @ snd ?w)"
            using rd um None Inr js by (simp add: createChannel_create_def Let_def split_beta)
          note sh = writeFile_created_shape [of env "i @ ''.json''" js
                      "''Error creating channel file''" "''Error writing channel file''" "h @ ?a" e]
          from sh have s1: "snd ?w = EvOsCreate (i @ ''.json'') # tl (snd ?w)" by blast
          from assms(1) r
          have "?a @ EvOsCreate (i @ ''.json'') # tl (snd ?w) = pre @ EvOsCreate f # post"
            using s1 by simp
          from unique_split [OF this, of is_os_create] sh
          have p: "pre = ?a" and ff: "f = i @ ''.json''" and po: "post = tl (snd ?w)" by auto
          from assms(2) p ff have "os_Create env (h @ ?a) (i @ ''.json'') = Some e" by simp
          with sh have
            "?w = (None, [EvOsCreate (i @ ''.json''), EvLogErr ''Error creating channel file'' e])"
            by blast
          with r po show ?thesis by simp
        qed
      qed
    qed
  qed
qed

lemma createChannelIfNotExists_os_create:
  assumes "snd (createChannelIfNotExists env p l i path h) = pre @ EvOsCreate f # post"
    and "os_Create env (h @ pre) f = Some e"
  shows "case GetChannel env (h @ [EvNewClient]) (channelPath p l i) of
           Inr x \<Rightarrow>
             fst (createChannelIfNotExists env p l i path h)
               = Some (Msg ''Error creating channel file'' e)
             \<and> post = [EvClientClose]
         | Inl err \<Rightarrow>
             fst (createChannelIfNotExists env p l i path h) = None
             \<and> post = [EvLogErr ''Error creating channel file'' e, EvClientClose]"
proof (cases "NewClient env h")
  case (Some e')
  with assms(1) show ?thesis
    by (simp add: createChannelIfNotExists_def Cons_eq_append_conv)
next
  case None
  let ?n = "channelPath p l i"
  let ?a = "[EvNewClient, EvGetChannel ?n]"
  let ?b = "case GetChannel env (h @ [EvNewClient]) ?n of
              Inr x \<Rightarrow> createChannel_existing env p l i ?n x (h @ ?a)
            | Inl err \<Rightarrow> createChannel_create env p l i path (h @ ?a)"
  have r: "createChannelIfNotExists env p l i path h = (fst ?b, ?a @ snd ?b @ [EvClientClose])"
    using None by (simp add: createChannelIfNotExists_def Let_def split_beta)
  from assms(1) r have "?a @ (snd ?b @ [EvClientClose]) = pre @ EvOsCreate f # post" by simp
  from split_in_suffix [OF this] obtain pre' where p: "pre = ?a @ pre'"
    and "snd ?b @ [EvClientClose] = pre' @ EvOsCreate f # post" by auto
  from split_in_prefix [OF this(2)] obtain post' where po: "post = post' @ [EvClientClose]"
    and b: "snd ?b = pre' @ EvOsCreate f # post'" by auto
  from assms(2) p have o: "os_Create env ((h @ ?a) @ pre') f = Some e" by simp
  show ?thesis
  proof (cases "GetChannel env (h @ [EvNewClient]) ?n")
    case (Inr x)
    with b have "snd (createChannel_existing env p l i ?n x (h @ ?a)) = pre' @ EvOsCreate f # post'"
      by simp
    from createChannel_existing_os_create [OF this o] Inr r po show ?thesis by simp
  next
    case (Inl err)
    with b have "snd (createChannel_create env p l i path (h @ ?a)) = pre' @ EvOsCreate f # post'"
      by simp
    from createChannel_create_os_create [OF this o] Inl r po show ?thesis by simp
  qed
qed

text \<open>
  C10. Whenever a run of an ensure function reaches the creation of the snapshot file and
  this creation fails, the outcome depends on the branch. After a successful lookup (the
  resource exists) the function returns the error "Error creating ... file", and only the
  client is closed after the failed creation. After a failed lookup (the resource was
  just created) the function returns \<^verbatim>\<open>nil\<close>: the error is only logged, and then the
  client is closed. In both branches nothing is written to a file. This holds for
  \<open>createInputIfNotExists\<close> and for \<open>createChannelIfNotExists\<close>.
\<close>

theorem snapshot_create_failure_asymmetric:
  "(snd (createInputIfNotExists env p l i h) = pre @ EvOsCreate f # post \<longrightarrow>
    os_Create env (h @ pre) f = Some e \<longrightarrow>
      (case GetInput env (h @ [EvNewClient]) (inputPath p l i) of
         Inr x \<Rightarrow>
           fst (createInputIfNotExists env p l i h) = Some (Msg ''Error creating input file'' e)
           \<and> post = [EvClientClose]
       | Inl err \<Rightarrow>
           fst (createInputIfNotExists env p l i h) = None
           \<and> post = [EvLogErr ''Error creating input file'' e, EvClientClose]))
   \<and> (snd (createChannelIfNotExists env p l c path h) = pre' @ EvOsCreate f' # post' \<longrightarrow>
      os_Create env (h @ pre') f' = Some e' \<longrightarrow>
      (case GetChannel env (h @ [EvNewClient]) (channelPath p l c) of
         Inr x \<Rightarrow>
           fst (createChannelIfNotExists env p l c path h)
             = Some (Msg ''Error creating channel file'' e')
           \<and> post' = [EvClientClose]
       | Inl err \<Rightarrow>
           fst (createChannelIfNotExists env p l c path h) = None
           \<and> post' = [EvLogErr ''Error creating channel file'' e', EvClientClose]))"
  using createInputIfNotExists_os_create [of env p l i h pre f post e]
    createChannelIfNotExists_os_create [of env p l c path h pre' f' post' e']
  by blast


lemmas example_defs =
  env_ok_def projectID_def location_def inputID_def channelID_def runningNumber_def gcsoutput_def
  parentPath_def inputPath_def channelPath_def requestString_def
  createInputIfNotExists_def createInput_existing_def createInput_create_def
  createChannelIfNotExists_def createChannel_existing_def createChannel_create_def
  writeFile_existing_def writeFile_created_def Let_def

theorem snapshot_create_failure_asymmetric_witness:
  "fst (createInputIfNotExists env_no_file projectID location inputID []) = None
   \<and> fst (createChannelIfNotExists env_no_file projectID location channelID ''request.json'' [])
       = None
   \<and> fst (createInputIfNotExists env_found_no_file projectID location inputID [])
       = Some (Msg ''Error creating input file'' PermissionDenied)
   \<and> fst (createChannelIfNotExists env_found_no_file projectID location channelID
            ''request.json'' [])
       = Some (Msg ''Error creating channel file'' PermissionDenied)"
proof -
  let ?i1 = "snd (createInputIfNotExists env_no_file projectID location inputID [])"
  let ?c1 = "snd (createChannelIfNotExists env_no_file projectID location channelID
                   ''request.json'' [])"
  let ?i2 = "snd (createInputIfNotExists env_found_no_file projectID location inputID [])"
  let ?c2 = "snd (createChannelIfNotExists env_found_no_file projectID location channelID
                   ''request.json'' [])"
  have i1: "?i1 = take 7 ?i1 @ EvOsCreate ''livestream-input-01.json'' # drop 8 ?i1"
    by (simp add: env_no_file_def example_defs)
  have c1: "?c1 = take 8 ?c1 @ EvOsCreate ''livestream-channel-01.json'' # drop 9 ?c1"
    by (simp add: env_no_file_def example_defs)
  have i2: "?i2 = take 5 ?i2 @ EvOsCreate ''livestream-input-01.json'' # drop 6 ?i2"
    by (simp add: env_found_no_file_def example_defs)
  have c2: "?c2 = take 5 ?c2 @ EvOsCreate ''livestream-channel-01.json'' # drop 6 ?c2"
    by (simp add: env_found_no_file_def example_defs)
  have f1: "os_Create env_no_file h f = Some PermissionDenied" for h f
    by (simp add: env_no_file_def env_ok_def)
  have f2: "os_Create env_found_no_file h f = Some PermissionDenied" for h f
    by (simp add: env_found_no_file_def env_ok_def)
  have g1: "GetInput env_no_file h n = Inl NotFound" "GetChannel env_no_file h n = Inl NotFound"
    for h n
    by (simp_all add: env_no_file_def env_ok_def)
  have g2: "GetInput env_found_no_file h n =
              Inr \<lparr>input_Name = n, input_Type = RTMP_PUSH, input_Uri = ''rtmp://ingest/live''\<rparr>"
    "GetChannel env_found_no_file h n =
       Inr \<lparr>channel_Name = n, channel_Output_Uri = gcsoutput, channel_StreamingState = STOPPED\<rparr>"
    for h n
    by (simp_all add: env_found_no_file_def env_ok_def)
  from snapshot_create_failure_asymmetric [of env_no_file projectID location inputID "[]"
      "take 7 ?i1" "''livestream-input-01.json''" "drop 8 ?i1" PermissionDenied
      channelID "''request.json''" "take 8 ?c1" "''livestream-channel-01.json''" "drop 9 ?c1"
      PermissionDenied] i1 c1 f1 g1
  have a: "fst (createInputIfNotExists env_no_file projectID location inputID []) = None"
    "fst (createChannelIfNotExists env_no_file projectID location channelID ''request.json'' [])
       = None"
    by simp_all
  from snapshot_create_failure_asymmetric [of env_found_no_file projectID location inputID "[]"
      "take 5 ?i2" "''livestream-input-01.json''" "drop 6 ?i2" PermissionDenied
      channelID "''request.json''" "take 5 ?c2" "''livestream-channel-01.json''" "drop 6 ?c2"
      PermissionDenied] i2 c2 f2 g2
  have b: "fst (createInputIfNotExists env_found_no_file projectID location inputID [])
       = Some (Msg ''Error creating input file'' PermissionDenied)"
    "fst (createChannelIfNotExists env_found_no_file projectID location channelID
            ''request.json'' [])
       = Some (Msg ''Error creating channel file'' PermissionDenied)"
    by simp_all
  from a b show ?thesis by simp
qed


end
